theory Spec2Isabelle
  imports Complex_Main
begin

section \<open>JavaScript numbers\<close>

text \<open>
  The camera-framing code of \<^verbatim>\<open>src/lib/state.ts\<close> (the part that is
  \<^verbatim>\<open>lib/look-at.ts\<close>) computes with JavaScript numbers. It starts its bounding
  box at \<^verbatim>\<open>Infinity\<close> and \<^verbatim>\<open>-Infinity\<close>, divides without guarding the
  divisor, and compares values that may be \<^verbatim>\<open>NaN\<close>. A number is therefore modelled
  as a real or one of the three special values, and every operator follows the
  special-value rules of IEEE 754 as ECMAScript states them.

  Two things are idealised and not modelled: rounding (a finite result is the exact real)
  and the sign of zero (there is one zero, which divides like \<^verbatim>\<open>+0\<close>).
\<close>

datatype jsnum = Num real | PosInf | NegInf | NaN

fun isFinite :: "jsnum \<Rightarrow> bool" where
  "isFinite (Num a) = True"
| "isFinite PosInf = False"
| "isFinite NegInf = False"
| "isFinite NaN = False"

fun val :: "jsnum \<Rightarrow> real" where
  "val (Num a) = a"
| "val PosInf = 0"
| "val NegInf = 0"
| "val NaN = 0"

fun jneg :: "jsnum \<Rightarrow> jsnum" where
  "jneg (Num a) = Num (- a)"
| "jneg PosInf = NegInf"
| "jneg NegInf = PosInf"
| "jneg NaN = NaN"

fun jadd :: "jsnum \<Rightarrow> jsnum \<Rightarrow> jsnum" where
  "jadd NaN y = NaN"
| "jadd x NaN = NaN"
| "jadd (Num a) (Num b) = Num (a + b)"
| "jadd PosInf NegInf = NaN"
| "jadd NegInf PosInf = NaN"
| "jadd PosInf y = PosInf"
| "jadd x PosInf = PosInf"
| "jadd NegInf y = NegInf"
| "jadd x NegInf = NegInf"

definition jsub :: "jsnum \<Rightarrow> jsnum \<Rightarrow> jsnum" where
  "jsub x y = jadd x (jneg y)"

fun jmul :: "jsnum \<Rightarrow> jsnum \<Rightarrow> jsnum" where
  "jmul NaN y = NaN"
| "jmul x NaN = NaN"
| "jmul (Num a) (Num b) = Num (a * b)"
| "jmul (Num a) PosInf = (if a = 0 then NaN else if 0 < a then PosInf else NegInf)"
| "jmul (Num a) NegInf = (if a = 0 then NaN else if 0 < a then NegInf else PosInf)"
| "jmul PosInf (Num b) = (if b = 0 then NaN else if 0 < b then PosInf else NegInf)"
| "jmul NegInf (Num b) = (if b = 0 then NaN else if 0 < b then NegInf else PosInf)"
| "jmul PosInf PosInf = PosInf"
| "jmul PosInf NegInf = NegInf"
| "jmul NegInf PosInf = NegInf"
| "jmul NegInf NegInf = PosInf"

fun jdiv :: "jsnum \<Rightarrow> jsnum \<Rightarrow> jsnum" where
  "jdiv NaN y = NaN"
| "jdiv x NaN = NaN"
| "jdiv (Num a) (Num b) =
     (if b \<noteq> 0 then Num (a / b)
      else if a = 0 then NaN else if 0 < a then PosInf else NegInf)"
| "jdiv (Num a) PosInf = Num 0"
| "jdiv (Num a) NegInf = Num 0"
| "jdiv PosInf (Num b) = (if 0 \<le> b then PosInf else NegInf)"
| "jdiv NegInf (Num b) = (if 0 \<le> b then NegInf else PosInf)"
| "jdiv PosInf PosInf = NaN"
| "jdiv PosInf NegInf = NaN"
| "jdiv NegInf PosInf = NaN"
| "jdiv NegInf NegInf = NaN"

text \<open>\<^verbatim>\<open>x ** 2\<close>\<close>

fun jpow2 :: "jsnum \<Rightarrow> jsnum" where
  "jpow2 (Num a) = Num (a ^ 2)"
| "jpow2 PosInf = PosInf"
| "jpow2 NegInf = PosInf"
| "jpow2 NaN = NaN"

text \<open>\<^verbatim>\<open>x < y\<close> and \<^verbatim>\<open>x > y\<close>: false as soon as one side is \<^verbatim>\<open>NaN\<close>.\<close>

fun jlt :: "jsnum \<Rightarrow> jsnum \<Rightarrow> bool" where
  "jlt NaN y = False"
| "jlt x NaN = False"
| "jlt (Num a) (Num b) = (a < b)"
| "jlt (Num a) PosInf = True"
| "jlt (Num a) NegInf = False"
| "jlt PosInf y = False"
| "jlt NegInf NegInf = False"
| "jlt NegInf y = True"

definition jgt :: "jsnum \<Rightarrow> jsnum \<Rightarrow> bool" where
  "jgt x y = jlt y x"

text \<open>\<^verbatim>\<open>Math.max(x, y)\<close>: \<^verbatim>\<open>NaN\<close> as soon as one argument is.\<close>

fun jmax :: "jsnum \<Rightarrow> jsnum \<Rightarrow> jsnum" where
  "jmax NaN y = NaN"
| "jmax x NaN = NaN"
| "jmax x y = (if jlt x y then y else x)"

fun jsin :: "jsnum \<Rightarrow> jsnum" where
  "jsin (Num a) = Num (sin a)"
| "jsin PosInf = NaN"
| "jsin NegInf = NaN"
| "jsin NaN = NaN"

fun jcos :: "jsnum \<Rightarrow> jsnum" where
  "jcos (Num a) = Num (cos a)"
| "jcos PosInf = NaN"
| "jcos NegInf = NaN"
| "jcos NaN = NaN"

fun jtan :: "jsnum \<Rightarrow> jsnum" where
  "jtan (Num a) = Num (tan a)"
| "jtan PosInf = NaN"
| "jtan NegInf = NaN"
| "jtan NaN = NaN"

fun jsqrt :: "jsnum \<Rightarrow> jsnum" where
  "jsqrt (Num a) = (if a < 0 then NaN else Num (sqrt a))"
| "jsqrt PosInf = PosInf"
| "jsqrt NegInf = NaN"
| "jsqrt NaN = NaN"

text \<open>\<^verbatim>\<open>Math.atan2(y, x)\<close>, the angle of the point \<open>(x, y)\<close>.\<close>

fun jatan2 :: "jsnum \<Rightarrow> jsnum \<Rightarrow> jsnum" where
  "jatan2 NaN x = NaN"
| "jatan2 y NaN = NaN"
| "jatan2 (Num y) (Num x) =
     (if 0 < x then Num (arctan (y / x))
      else if x < 0 then (if 0 \<le> y then Num (arctan (y / x) + pi) else Num (arctan (y / x) - pi))
      else if 0 < y then Num (pi / 2)
      else if y < 0 then Num (- (pi / 2))
      else Num 0)"
| "jatan2 (Num y) PosInf = Num 0"
| "jatan2 (Num y) NegInf = (if 0 \<le> y then Num pi else Num (- pi))"
| "jatan2 PosInf (Num x) = Num (pi / 2)"
| "jatan2 NegInf (Num x) = Num (- (pi / 2))"
| "jatan2 PosInf PosInf = Num (pi / 4)"
| "jatan2 PosInf NegInf = Num (3 * pi / 4)"
| "jatan2 NegInf PosInf = Num (- (pi / 4))"
| "jatan2 NegInf NegInf = Num (- (3 * pi / 4))"


section \<open>Data of the camera-framing code\<close>

text \<open>\<^verbatim>\<open>type Location = { lat: number; lng: number; alt?: number }\<close>\<close>

record Location =
  lat :: jsnum
  lng :: jsnum
  alt :: "jsnum option"

text \<open>
  The object that \<^verbatim>\<open>lookAt\<close> and \<^verbatim>\<open>lookAtWithPadding\<close> return:
  \<^verbatim>\<open>{ lat, lng, altitude, range, tilt, heading }\<close>. The fields carry the prefix
  \<open>pose_\<close> because a record cannot share field names with \<open>Location\<close>.
\<close>

record CameraParams =
  pose_lat :: jsnum
  pose_lng :: jsnum
  pose_altitude :: jsnum
  pose_range :: jsnum
  pose_tilt :: jsnum
  pose_heading :: jsnum

text \<open>\<^verbatim>\<open>padding: [number, number, number, number]\<close>, read as
  \<^verbatim>\<open>[padTop, padRight, padBottom, padLeft]\<close>.\<close>

type_synonym Padding = "jsnum \<times> jsnum \<times> jsnum \<times> jsnum"

text \<open>
  The elevation service is an external collaborator. One request carries a list of
  positions; the promise either rejects (or the awaited value cannot be destructured, which
  throws inside the same \<^verbatim>\<open>try\<close>), or resolves to an object whose \<^verbatim>\<open>results\<close>
  is missing (\<open>None\<close>) or an array of results.
\<close>

record ElevationResult =
  elevation :: jsnum

datatype ElevationResponse = Rejects | Resolves "ElevationResult list option"

type_synonym ElevationService = "(jsnum \<times> jsnum) list \<Rightarrow> ElevationResponse"

text \<open>The camera that \<^verbatim>\<open>flyCameraTo\<close> receives, and the options around it.\<close>

record LatLngAltitude =
  center_lat :: jsnum
  center_lng :: jsnum
  center_altitude :: jsnum

record Map3DCameraProps =
  center :: LatLngAltitude
  cam_range :: jsnum
  cam_heading :: jsnum
  cam_tilt :: jsnum
  cam_roll :: jsnum

record FlyCameraOptions =
  durationMillis :: jsnum
  endCamera :: Map3DCameraProps

text \<open>
  What a call does to the outside world, in order: a request to the elevation service, or a
  camera animation on the map element. (Console output is not modelled.)
\<close>

datatype effect =
    GetElevationForLocations "(jsnum \<times> jsnum) list"
  | FlyCameraTo FlyCameraOptions

text \<open>
  The code defines no error class of its own. The one way the framing functions fail is the
  \<^verbatim>\<open>TypeError\<close> of reading a property of \<^verbatim>\<open>undefined\<close>.
\<close>

datatype error = TypeError


section \<open>The elevation lookup\<close>

text \<open>
  \<^verbatim>\<open>fetchElevation(lat, lng, elevator)\<close>: one request for the one position; the
  elevation of the first result when there is one, and 0 when the service throws or has no
  first result.
\<close>

definition fetchElevation :: "jsnum \<Rightarrow> jsnum \<Rightarrow> ElevationService \<Rightarrow> jsnum \<times> effect list" where
  "fetchElevation lat1 lng1 elevator =
     ((case elevator [(lat1, lng1)] of
         Rejects \<Rightarrow> Num 0
       | Resolves None \<Rightarrow> Num 0
       | Resolves (Some []) \<Rightarrow> Num 0
       | Resolves (Some (r # rs)) \<Rightarrow> elevation r),
      [GetElevationForLocations [(lat1, lng1)]])"


section \<open>The stages shared by \<open>lookAt\<close> and \<open>lookAtWithPadding\<close>\<close>

definition degToRad :: jsnum where
  "degToRad = jdiv (Num pi) (Num 180)"

definition earthRadius :: jsnum where
  "earthRadius = Num 6371000"

definition targetTiltDeg :: jsnum where
  "targetTiltDeg = Num 60"

text \<open>
  The bounding box: one pass over the locations, updating
  \<open>(minLat, maxLat, minLng, maxLng)\<close> from \<open>(Infinity, -Infinity, Infinity, -Infinity)\<close>.
\<close>

fun boundsStep :: "Location \<Rightarrow> jsnum \<times> jsnum \<times> jsnum \<times> jsnum \<Rightarrow> jsnum \<times> jsnum \<times> jsnum \<times> jsnum" where
  "boundsStep loc (minLat, maxLat, minLng, maxLng) =
     (if jlt (lat loc) minLat then lat loc else minLat,
      if jgt (lat loc) maxLat then lat loc else maxLat,
      if jlt (lng loc) minLng then lng loc else minLng,
      if jgt (lng loc) maxLng then lng loc else maxLng)"

definition boundingBox :: "Location list \<Rightarrow> jsnum \<times> jsnum \<times> jsnum \<times> jsnum" where
  "boundingBox locations = fold boundsStep locations (PosInf, NegInf, PosInf, NegInf)"

definition centerLat :: "Location list \<Rightarrow> jsnum" where
  "centerLat locations =
     (case boundingBox locations of
        (minLat, maxLat, minLng, maxLng) \<Rightarrow> jdiv (jadd minLat maxLat) (Num 2))"

definition centerLng :: "Location list \<Rightarrow> jsnum" where
  "centerLng locations =
     (case boundingBox locations of
        (minLat, maxLat, minLng, maxLng) \<Rightarrow> jdiv (jadd minLng maxLng) (Num 2))"

text \<open>
  The altitude: \<^verbatim>\<open>sumAlt += ALTITUDE + (loc.alt ?? 0); countAlt++\<close> over the
  locations, then \<^verbatim>\<open>countAlt > 0 ? sumAlt / countAlt : 0\<close>. The counter is a natural
  number here.
\<close>

definition altOrZero :: "Location \<Rightarrow> jsnum" where
  "altOrZero loc = (case alt loc of None \<Rightarrow> Num 0 | Some a \<Rightarrow> a)"

fun altStep :: "jsnum \<Rightarrow> Location \<Rightarrow> jsnum \<times> nat \<Rightarrow> jsnum \<times> nat" where
  "altStep ALTITUDE loc (sumAlt, countAlt) =
     (jadd sumAlt (jadd ALTITUDE (altOrZero loc)), countAlt + 1)"

definition lookAtAltitude :: "jsnum \<Rightarrow> Location list \<Rightarrow> jsnum" where
  "lookAtAltitude ALTITUDE locations =
     (case fold (altStep ALTITUDE) locations (Num 0, 0) of
        (sumAlt, countAlt) \<Rightarrow>
          if 0 < countAlt then jdiv sumAlt (Num (real countAlt)) else Num 0)"

text \<open>
  The haversine function: the angular distance in radians. Neither the code nor this
  definition clamps \<open>a\<close> to the interval from 0 to 1; a value above 1 gives \<^verbatim>\<open>NaN\<close>.
\<close>

definition haversine :: "jsnum \<Rightarrow> jsnum \<Rightarrow> jsnum \<Rightarrow> jsnum \<Rightarrow> jsnum" where
  "haversine lat1 lng1 lat2 lng2 =
     (let dLat = jmul (jsub lat2 lat1) degToRad;
          dLng = jmul (jsub lng2 lng1) degToRad;
          a = jadd (jpow2 (jsin (jdiv dLat (Num 2))))
                (jmul (jmul (jcos (jmul lat1 degToRad)) (jcos (jmul lat2 degToRad)))
                   (jpow2 (jsin (jdiv dLng (Num 2)))))
      in jmul (Num 2) (jatan2 (jsqrt a) (jsqrt (jsub (Num 1) a))))"

text \<open>
  The largest distance from the centre: from 0, replaced by each strictly larger distance.
\<close>

definition distStep :: "jsnum \<Rightarrow> jsnum \<Rightarrow> Location \<Rightarrow> jsnum \<Rightarrow> jsnum" where
  "distStep cLat cLng loc maxAngularDistance =
     (let d = haversine cLat cLng (lat loc) (lng loc)
      in if jgt d maxAngularDistance then d else maxAngularDistance)"

definition maxAngularDistance :: "Location list \<Rightarrow> jsnum" where
  "maxAngularDistance locations =
     fold (distStep (centerLat locations) (centerLng locations)) locations (Num 0)"

definition maxDistance :: "Location list \<Rightarrow> jsnum" where
  "maxDistance locations = jmul (maxAngularDistance locations) earthRadius"

text \<open>The tilt is the constant 60 degrees; the slant range follows from it.\<close>

definition verticalDistance :: "jsnum \<Rightarrow> jsnum" where
  "verticalDistance horizontal = jdiv horizontal (jtan (jmul targetTiltDeg degToRad))"

definition slantRange :: "jsnum \<Rightarrow> jsnum" where
  "slantRange horizontal =
     jsqrt (jadd (jpow2 horizontal) (jpow2 (verticalDistance horizontal)))"


section \<open>\<open>lookAt\<close>\<close>

definition horizontalDistance :: "Location list \<Rightarrow> jsnum" where
  "horizontalDistance locations = jmul (maxDistance locations) (Num 2)"

text \<open>
  \<^verbatim>\<open>locations[0].lat\<close> is read first: on an empty array \<^verbatim>\<open>locations[0]\<close> is
  \<^verbatim>\<open>undefined\<close> and the read throws before the elevation service is reached.
\<close>

definition lookAt :: "Location list \<Rightarrow> ElevationService \<Rightarrow> jsnum \<Rightarrow> (error + CameraParams) \<times> effect list" where
  "lookAt locations elevator heading =
     (case locations of
        [] \<Rightarrow> (Inl TypeError, [])
      | loc0 # rest \<Rightarrow>
          (case fetchElevation (lat loc0) (lng loc0) elevator of
             (ALTITUDE, effects) \<Rightarrow>
               (Inr \<lparr>pose_lat = centerLat locations,
                     pose_lng = centerLng locations,
                     pose_altitude = lookAtAltitude ALTITUDE locations,
                     pose_range = slantRange (horizontalDistance locations),
                     pose_tilt = targetTiltDeg,
                     pose_heading = heading\<rparr>,
                effects)))"


section \<open>\<open>lookAtWithPadding\<close>\<close>

text \<open>The padding calculations, one definition for each constant of the source.\<close>

fun visibleWidthFraction :: "Padding \<Rightarrow> jsnum" where
  "visibleWidthFraction (padTop, padRight, padBottom, padLeft) =
     jsub (jsub (Num 1) padLeft) padRight"

fun visibleHeightFraction :: "Padding \<Rightarrow> jsnum" where
  "visibleHeightFraction (padTop, padRight, padBottom, padLeft) =
     jsub (jsub (Num 1) padTop) padBottom"

definition scale :: "Padding \<Rightarrow> jsnum" where
  "scale padding =
     jmax (jdiv (Num 1) (visibleWidthFraction padding))
          (jdiv (Num 1) (visibleHeightFraction padding))"

definition contentHorizontalDistance :: "Location list \<Rightarrow> jsnum" where
  "contentHorizontalDistance locations = jmul (maxDistance locations) (Num 2)"

definition fullHorizontalDistance :: "Location list \<Rightarrow> Padding \<Rightarrow> jsnum" where
  "fullHorizontalDistance locations padding =
     jmul (contentHorizontalDistance locations) (scale padding)"

fun offsetX :: "Padding \<Rightarrow> jsnum" where
  "offsetX (padTop, padRight, padBottom, padLeft) = jdiv (jsub padLeft padRight) (Num 2)"

fun offsetY :: "Padding \<Rightarrow> jsnum" where
  "offsetY (padTop, padRight, padBottom, padLeft) = jdiv (jsub padTop padBottom) (Num 2)"

definition offsetGeoScreenX :: "Location list \<Rightarrow> Padding \<Rightarrow> jsnum" where
  "offsetGeoScreenX locations padding =
     jmul (offsetX padding) (fullHorizontalDistance locations padding)"

definition offsetGeoScreenY :: "Location list \<Rightarrow> Padding \<Rightarrow> jsnum" where
  "offsetGeoScreenY locations padding =
     jmul (offsetY padding) (fullHorizontalDistance locations padding)"

text \<open>\<^verbatim>\<open>shiftVectorScreenMeters = { x: -offsetGeoScreenX, y: offsetGeoScreenY }\<close>\<close>

definition shiftVectorScreenMeters :: "Location list \<Rightarrow> Padding \<Rightarrow> jsnum \<times> jsnum" where
  "shiftVectorScreenMeters locations padding =
     (jneg (offsetGeoScreenX locations padding), offsetGeoScreenY locations padding)"

definition shiftEastMeters :: "Location list \<Rightarrow> jsnum \<Rightarrow> Padding \<Rightarrow> jsnum" where
  "shiftEastMeters locations heading padding =
     (case shiftVectorScreenMeters locations padding of
        (x, y) \<Rightarrow>
          (let headingRad = jmul heading degToRad;
               cosH = jcos headingRad;
               sinH = jsin headingRad
           in jsub (jmul x cosH) (jmul y sinH)))"

definition shiftNorthMeters :: "Location list \<Rightarrow> jsnum \<Rightarrow> Padding \<Rightarrow> jsnum" where
  "shiftNorthMeters locations heading padding =
     (case shiftVectorScreenMeters locations padding of
        (x, y) \<Rightarrow>
          (let headingRad = jmul heading degToRad;
               cosH = jcos headingRad;
               sinH = jsin headingRad
           in jadd (jmul x sinH) (jmul y cosH)))"

definition shiftLatDeg :: "Location list \<Rightarrow> jsnum \<Rightarrow> Padding \<Rightarrow> jsnum" where
  "shiftLatDeg locations heading padding =
     jdiv (shiftNorthMeters locations heading padding) (Num 111000)"

definition shiftLngDeg :: "Location list \<Rightarrow> jsnum \<Rightarrow> Padding \<Rightarrow> jsnum" where
  "shiftLngDeg locations heading padding =
     jdiv (shiftEastMeters locations heading padding)
          (jmul (Num 111000) (jcos (jmul (centerLat locations) degToRad)))"

definition lookAtWithPadding ::
  "Location list \<Rightarrow> ElevationService \<Rightarrow> jsnum \<Rightarrow> Padding \<Rightarrow> (error + CameraParams) \<times> effect list" where
  "lookAtWithPadding locations elevator heading padding =
     (case locations of
        [] \<Rightarrow> (Inl TypeError, [])
      | loc0 # rest \<Rightarrow>
          (case fetchElevation (lat loc0) (lng loc0) elevator of
             (ALTITUDE, effects) \<Rightarrow>
               (Inr \<lparr>pose_lat = jadd (centerLat locations) (shiftLatDeg locations heading padding),
                     pose_lng = jadd (centerLng locations) (shiftLngDeg locations heading padding),
                     pose_altitude = lookAtAltitude ALTITUDE locations,
                     pose_range = slantRange (fullHorizontalDistance locations padding),
                     pose_tilt = targetTiltDeg,
                     pose_heading = heading\<rparr>,
                effects)))"


section \<open>\<open>MapController.frameEntities\<close>\<close>

text \<open>
  An entity has a \<^verbatim>\<open>position\<close>, which is handed to \<^verbatim>\<open>lookAtWithPadding\<close> as a
  location. The controller is modelled by the elevation service that
  \<^verbatim>\<open>new this.elevationLib.ElevationService()\<close> builds.
\<close>

record Entity =
  position :: Location

definition flyTo :: "Map3DCameraProps \<Rightarrow> effect list" where
  "flyTo cameraProps =
     [FlyCameraTo \<lparr>durationMillis = Num 5000,
        endCamera = \<lparr>center = \<lparr>center_lat = center_lat (center cameraProps),
                                center_lng = center_lng (center cameraProps),
                                center_altitude = center_altitude (center cameraProps)\<rparr>,
                     cam_range = cam_range cameraProps,
                     cam_heading = cam_heading cameraProps,
                     cam_tilt = cam_tilt cameraProps,
                     cam_roll = cam_roll cameraProps\<rparr>\<rparr>]"

definition frameEntities :: "ElevationService \<Rightarrow> Entity list \<Rightarrow> Padding \<Rightarrow> (error + unit) \<times> effect list" where
  "frameEntities elevator entities padding =
     (if length entities = 0 then (Inr (), [])
      else
        (case lookAtWithPadding (map position entities) elevator (Num 0) padding of
           (Inl e, effects) \<Rightarrow> (Inl e, effects)
         | (Inr cameraProps, effects) \<Rightarrow>
             (Inr (),
              effects @
              flyTo \<lparr>center = \<lparr>center_lat = pose_lat cameraProps,
                                center_lng = pose_lng cameraProps,
                                center_altitude = pose_altitude cameraProps\<rparr>,
                     cam_range = jadd (pose_range cameraProps) (Num 1000),
                     cam_heading = pose_heading cameraProps,
                     cam_tilt = pose_tilt cameraProps,
                     cam_roll = Num 0\<rparr>)))"


section \<open>Auxiliary definitions for the proofs\<close>

text \<open>The two updates of the bounding-box pass, on one coordinate.\<close>

definition minStep :: "jsnum \<Rightarrow> jsnum \<Rightarrow> jsnum" where
  "minStep x m = (if jlt x m then x else m)"

definition maxStep :: "jsnum \<Rightarrow> jsnum \<Rightarrow> jsnum" where
  "maxStep x m = (if jgt x m then x else m)"

text \<open>The argument \<open>a\<close> of the haversine function, on reals.\<close>

definition havA :: "real \<Rightarrow> real \<Rightarrow> real \<Rightarrow> real \<Rightarrow> real" where
  "havA p1 l1 p2 l2 =
     (sin ((p2 - p1) * (pi / 180) / 2))\<^sup>2 +
     cos (p1 * (pi / 180)) * cos (p2 * (pi / 180)) * (sin ((l2 - l1) * (pi / 180) / 2))\<^sup>2"


section \<open>Concrete inputs\<close>

text \<open>
  An elevation service that rejects every request, one that answers every request with a
  single result of 100 metres, a location at latitude 0 and longitude 0, and a list of two
  locations whose bounding box has its centre at latitude 0 and longitude 30.
\<close>

definition noElevation :: ElevationService where
  "noElevation request = Rejects"

definition flatElevation :: ElevationService where
  "flatElevation request = Resolves (Some [\<lparr>elevation = Num 100\<rparr>])"

definition origin :: Location where
  "origin = \<lparr>lat = Num 0, lng = Num 0, alt = None\<rparr>"

definition twoPlaces :: "Location list" where
  "twoPlaces = [\<lparr>lat = Num 10, lng = Num 20, alt = None\<rparr>,
                \<lparr>lat = Num (- 10), lng = Num 40, alt = Some (Num 5)\<rparr>]"


section \<open>Facts about the number operations\<close>

lemma Num_val: "isFinite x \<Longrightarrow> Num (val x) = x"
  by (cases x) simp_all

lemma isFinite_iff: "isFinite x \<longleftrightarrow> (\<exists>r. x = Num r)"
  by (cases x) simp_all

lemma degToRad_eq: "degToRad = Num (pi / 180)"
  by (simp add: degToRad_def)

lemma jadd_zero_right: "jadd x (Num 0) = x"
  by (cases x) simp_all

lemma jadd_zero_left: "jadd (Num 0) x = x"
  by (cases x) simp_all

lemma jmul_one_right: "jmul x (Num 1) = x"
  by (cases x) simp_all

lemma jatan2_cases': "jatan2 y x = NaN \<or> isFinite (jatan2 y x)"
  by (cases y; cases x) simp_all

lemma jatan2_cases: "jatan2 y x = NaN \<or> (\<exists>r. jatan2 y x = Num r)"
  using jatan2_cases' [of y x] by (simp add: isFinite_iff)

lemma haversine_cases: "haversine a b c d = NaN \<or> (\<exists>r. haversine a b c d = Num r)"
proof -
  let ?t = "let dLat = jmul (jsub c a) degToRad;
          dLng = jmul (jsub d b) degToRad;
          a = jadd (jpow2 (jsin (jdiv dLat (Num 2))))
                (jmul (jmul (jcos (jmul a degToRad)) (jcos (jmul c degToRad)))
                   (jpow2 (jsin (jdiv dLng (Num 2)))))
      in (jatan2 (jsqrt a) (jsqrt (jsub (Num 1) a)))"
  have h: "haversine a b c d = jmul (Num 2) ?t"
    by (simp add: haversine_def Let_def)
  have "?t = NaN \<or> (\<exists>r. ?t = Num r)"
    unfolding Let_def by (rule jatan2_cases)
  then show ?thesis
    unfolding h by auto
qed

lemma distStep_finite: "\<exists>m'. distStep c1 c2 loc (Num m) = Num m'"
  using haversine_cases [of c1 c2 "lat loc" "lng loc"]
  by (auto simp add: distStep_def Let_def jgt_def)

lemma fold_distStep_finite: "\<exists>m'. fold (distStep c1 c2) locs (Num m) = Num m'"
proof (induction locs arbitrary: m)
  case Nil
  then show ?case by simp
next
  case (Cons loc locs)
  obtain m1 where "distStep c1 c2 loc (Num m) = Num m1"
    using distStep_finite by blast
  then show ?case using Cons.IH [of m1] by simp
qed

lemma maxAngularDistance_finite: "\<exists>m. maxAngularDistance locs = Num m"
  unfolding maxAngularDistance_def by (rule fold_distStep_finite)

lemma contentHorizontalDistance_finite: "\<exists>f. contentHorizontalDistance locs = Num f"
  using maxAngularDistance_finite [of locs]
  by (auto simp add: contentHorizontalDistance_def maxDistance_def earthRadius_def)

lemma scale_zero: "scale (Num 0, Num 0, Num 0, Num 0) = Num 1"
  by (simp add: scale_def jsub_def)

lemma full_zero: "fullHorizontalDistance locs (Num 0, Num 0, Num 0, Num 0) = horizontalDistance locs"
  by (simp add: fullHorizontalDistance_def scale_zero jmul_one_right horizontalDistance_def contentHorizontalDistance_def)

lemma shiftVector_zero:
  "shiftVectorScreenMeters locs (Num 0, Num 0, Num 0, Num 0) = (Num 0, Num 0)"
  using contentHorizontalDistance_finite [of locs]
  by (auto simp add: shiftVectorScreenMeters_def offsetGeoScreenX_def offsetGeoScreenY_def
      fullHorizontalDistance_def scale_zero jsub_def)

lemma shiftNorth_zero:
  "shiftNorthMeters locs (Num h) (Num 0, Num 0, Num 0, Num 0) = Num 0"
  by (simp add: shiftNorthMeters_def shiftVector_zero degToRad_eq Let_def)

lemma shiftEast_zero:
  "shiftEastMeters locs (Num h) (Num 0, Num 0, Num 0, Num 0) = Num 0"
  by (simp add: shiftEastMeters_def shiftVector_zero degToRad_eq Let_def jsub_def)


section \<open>The bounding box of finite coordinates\<close>

lemma fold_boundsStep:
  "fold boundsStep locs (a, b, c, d) =
     (fold minStep (map lat locs) a, fold maxStep (map lat locs) b,
      fold minStep (map lng locs) c, fold maxStep (map lng locs) d)"
  by (induction locs arbitrary: a b c d) (simp_all add: minStep_def maxStep_def)

lemma fold_minStep_Num: "fold minStep (map Num rs) (Num m) = Num (fold min rs m)"
  by (induction rs arbitrary: m) (simp_all add: minStep_def min_def)

lemma fold_maxStep_Num: "fold maxStep (map Num rs) (Num m) = Num (fold max rs m)"
  by (induction rs arbitrary: m) (auto simp add: maxStep_def max_def jgt_def)

lemma fold_minStep_PosInf:
  assumes "rs \<noteq> []"
  shows "fold minStep (map Num rs) PosInf = Num (Min (set rs))"
proof (cases rs)
  case Nil
  then show ?thesis using assms by simp
next
  case (Cons a list)
  show ?thesis
    using Min.set_eq_fold [of a list] by (simp add: Cons minStep_def fold_minStep_Num)
qed

lemma fold_maxStep_NegInf:
  assumes "rs \<noteq> []"
  shows "fold maxStep (map Num rs) NegInf = Num (Max (set rs))"
proof (cases rs)
  case Nil
  then show ?thesis using assms by simp
next
  case (Cons a list)
  show ?thesis
    using Max.set_eq_fold [of a list] by (simp add: Cons maxStep_def jgt_def fold_maxStep_Num)
qed

lemma map_Num_val: "\<forall>x\<in>set xs. isFinite x \<Longrightarrow> map (Num \<circ> val) xs = xs"
  by (induction xs) (simp_all add: Num_val)

lemma fold_minStep_finite:
  assumes "xs \<noteq> []" "\<forall>x\<in>set xs. isFinite x"
  shows "fold minStep xs PosInf = Num (Min (val ` set xs))"
  using fold_minStep_PosInf [of "map val xs"] assms by (simp add: map_Num_val)

lemma fold_maxStep_finite:
  assumes "xs \<noteq> []" "\<forall>x\<in>set xs. isFinite x"
  shows "fold maxStep xs NegInf = Num (Max (val ` set xs))"
  using fold_maxStep_NegInf [of "map val xs"] assms by (simp add: map_Num_val)

lemma centerLat_finite:
  assumes "locs \<noteq> []" "\<forall>l\<in>set locs. isFinite (lat l)"
  shows "centerLat locs =
    Num ((Min ((\<lambda>l. val (lat l)) ` set locs) + Max ((\<lambda>l. val (lat l)) ` set locs)) / 2)"
  using fold_minStep_finite [of "map lat locs"] fold_maxStep_finite [of "map lat locs"] assms
  by (simp add: centerLat_def boundingBox_def fold_boundsStep image_image)

lemma centerLng_finite:
  assumes "locs \<noteq> []" "\<forall>l\<in>set locs. isFinite (lng l)"
  shows "centerLng locs =
    Num ((Min ((\<lambda>l. val (lng l)) ` set locs) + Max ((\<lambda>l. val (lng l)) ` set locs)) / 2)"
  using fold_minStep_finite [of "map lng locs"] fold_maxStep_finite [of "map lng locs"] assms
  by (simp add: centerLng_def boundingBox_def fold_boundsStep image_image)

lemma shiftLat_zero:
  "shiftLatDeg locs (Num h) (Num 0, Num 0, Num 0, Num 0) = Num 0"
  by (simp add: shiftLatDeg_def shiftNorth_zero)

lemma shiftLng_zero:
  assumes "centerLat locs = Num c" "cos (c * pi / 180) \<noteq> 0"
  shows "shiftLngDeg locs (Num h) (Num 0, Num 0, Num 0, Num 0) = Num 0"
  using assms by (simp add: shiftLngDeg_def shiftEast_zero degToRad_eq)


section \<open>The haversine distance of finite coordinates\<close>

lemma haversine_Num:
  "haversine (Num p1) (Num l1) (Num p2) (Num l2) =
     jmul (Num 2) (jatan2 (jsqrt (Num (havA p1 l1 p2 l2))) (jsqrt (Num (1 - havA p1 l1 p2 l2))))"
proof -
  have a: "jadd (jpow2 (jsin (jdiv (jmul (jsub (Num p2) (Num p1)) degToRad) (Num 2))))
             (jmul (jmul (jcos (jmul (Num p1) degToRad)) (jcos (jmul (Num p2) degToRad)))
                (jpow2 (jsin (jdiv (jmul (jsub (Num l2) (Num l1)) degToRad) (Num 2)))))
           = Num (havA p1 l1 p2 l2)"
    by (simp add: degToRad_eq jsub_def havA_def)
  have b: "jsub (Num 1) (Num (havA p1 l1 p2 l2)) = Num (1 - havA p1 l1 p2 l2)"
    by (simp add: jsub_def)
  show ?thesis
    by (simp only: haversine_def Let_def a b)
qed

lemma fold_distStep_mono: "\<exists>m'. fold (distStep c1 c2) locs (Num m) = Num m' \<and> m \<le> m'"
proof (induction locs arbitrary: m)
  case Nil
  then show ?case by simp
next
  case (Cons loc locs)
  have "\<exists>m1. distStep c1 c2 loc (Num m) = Num m1 \<and> m \<le> m1"
    using haversine_cases [of c1 c2 "lat loc" "lng loc"]
    by (auto simp add: distStep_def Let_def jgt_def)
  then obtain m1 where m1: "distStep c1 c2 loc (Num m) = Num m1" "m \<le> m1"
    by blast
  obtain m' where "fold (distStep c1 c2) locs (Num m1) = Num m'" "m1 \<le> m'"
    using Cons.IH [of m1] by blast
  then show ?case using m1 by auto
qed

lemma maxAngularDistance_nonneg: "\<exists>m. maxAngularDistance locs = Num m \<and> 0 \<le> m"
  unfolding maxAngularDistance_def by (rule fold_distStep_mono)

lemma tan_60_deg: "tan (60 * pi / 180) = sqrt 3"
proof -
  have "(60::real) * pi / 180 = pi / 3" by simp
  then show ?thesis by (simp only: tan_60)
qed

lemma slantRange_Num:
  "slantRange (Num f) = Num (sqrt (f\<^sup>2 + (f / tan (60 * pi / 180))\<^sup>2))"
proof -
  have t: "jtan (jmul targetTiltDeg degToRad) = Num (tan (60 * pi / 180))"
    by (simp add: targetTiltDeg_def degToRad_eq)
  have nz: "tan (60 * pi / 180) \<noteq> 0"
    by (simp only: tan_60_deg) simp
  have v: "verticalDistance (Num f) = Num (f / tan (60 * pi / 180))"
    unfolding verticalDistance_def t using nz by simp
  have "\<not> f\<^sup>2 + (f / tan (60 * pi / 180))\<^sup>2 < 0"
    by (simp add: not_less)
  then show ?thesis
    unfolding slantRange_def v by simp
qed

lemma slantRange_PosInf: "slantRange PosInf = PosInf"
proof -
  have "jtan (jmul targetTiltDeg degToRad) = Num (tan (60 * pi / 180))"
    by (simp add: targetTiltDeg_def degToRad_eq)
  moreover have "0 \<le> tan (60 * pi / 180)"
    by (simp only: tan_60_deg) simp
  ultimately show ?thesis
    by (simp add: slantRange_def verticalDistance_def)
qed

lemma slantRange_NaN: "slantRange NaN = NaN"
  by (simp add: slantRange_def)

lemma scale_Num:
  assumes "1 - l - r \<noteq> 0" "1 - t - b \<noteq> 0"
  shows "scale (Num t, Num r, Num b, Num l) = Num (max (1 / (1 - l - r)) (1 / (1 - t - b)))"
  using assms by (simp add: scale_def jsub_def max_def)

lemma scale_PosInf:
  assumes "1 - l - r = 0 \<or> 1 - t - b = 0"
  shows "scale (Num t, Num r, Num b, Num l) = PosInf"
  using assms by (auto simp add: scale_def jsub_def)

lemma offsets_Num:
  "offsetX (Num t, Num r, Num b, Num l) = Num ((l - r) / 2)"
  "offsetY (Num t, Num r, Num b, Num l) = Num ((t - b) / 2)"
  by (simp_all add: jsub_def)


section \<open>The padded camera centre\<close>

lemma fullHorizontalDistance_Num:
  assumes "maxAngularDistance locs = Num m" "1 - l - r \<noteq> 0" "1 - t - b \<noteq> 0"
  shows "fullHorizontalDistance locs (Num t, Num r, Num b, Num l) =
         Num (m * 6371000 * 2 * max (1 / (1 - l - r)) (1 / (1 - t - b)))"
  using assms(1)
  by (simp add: fullHorizontalDistance_def contentHorizontalDistance_def maxDistance_def
      earthRadius_def scale_Num [OF assms(2,3)])

lemma fullHorizontalDistance_PosInf:
  assumes "maxAngularDistance locs = Num m" "0 \<le> m" "1 - l - r = 0 \<or> 1 - t - b = 0"
  shows "fullHorizontalDistance locs (Num t, Num r, Num b, Num l) = (if 0 < m then PosInf else NaN)"
  using assms(1,2)
  by (simp add: fullHorizontalDistance_def contentHorizontalDistance_def maxDistance_def
      earthRadius_def scale_PosInf [OF assms(3)])

lemma shiftNorth_Num:
  assumes "fullHorizontalDistance locs (Num t, Num r, Num b, Num l) = Num f"
  shows "shiftNorthMeters locs (Num h) (Num t, Num r, Num b, Num l) =
         Num (- ((l - r) / 2 * f) * sin (h * (pi / 180)) + (t - b) / 2 * f * cos (h * (pi / 180)))"
  using assms
  by (simp add: shiftNorthMeters_def shiftVectorScreenMeters_def offsetGeoScreenX_def
      offsetGeoScreenY_def offsets_Num degToRad_eq Let_def jsub_def)

lemma shiftEast_Num:
  assumes "fullHorizontalDistance locs (Num t, Num r, Num b, Num l) = Num f"
  shows "shiftEastMeters locs (Num h) (Num t, Num r, Num b, Num l) =
         Num (- ((l - r) / 2 * f) * cos (h * (pi / 180)) - (t - b) / 2 * f * sin (h * (pi / 180)))"
  using assms
  by (simp add: shiftEastMeters_def shiftVectorScreenMeters_def offsetGeoScreenX_def
      offsetGeoScreenY_def offsets_Num degToRad_eq Let_def jsub_def)

lemma lookAtWithPadding_Cons:
  "lookAtWithPadding (loc0 # rest) elevator heading padding =
     (Inr \<lparr>pose_lat = jadd (centerLat (loc0 # rest)) (shiftLatDeg (loc0 # rest) heading padding),
           pose_lng = jadd (centerLng (loc0 # rest)) (shiftLngDeg (loc0 # rest) heading padding),
           pose_altitude = lookAtAltitude (fst (fetchElevation (lat loc0) (lng loc0) elevator)) (loc0 # rest),
           pose_range = slantRange (fullHorizontalDistance (loc0 # rest) padding),
           pose_tilt = targetTiltDeg,
           pose_heading = heading\<rparr>,
      [GetElevationForLocations [(lat loc0, lng loc0)]])"
  by (simp add: lookAtWithPadding_def fetchElevation_def)


section \<open>Coincident locations\<close>

lemma haversine_same: "haversine (Num p) (Num q) (Num p) (Num q) = Num 0"
  by (simp add: haversine_Num havA_def)


section \<open>The altitude\<close>

lemma fold_altStep_Num:
  assumes "\<forall>loc\<in>set locs. isFinite (altOrZero loc)"
  shows "fold (altStep (Num E)) locs (Num s, n) =
         (Num (s + (\<Sum>loc\<leftarrow>locs. E + val (altOrZero loc))), n + length locs)"
  using assms
proof (induction locs arbitrary: s n)
  case Nil
  then show ?case by simp
next
  case (Cons loc locs)
  obtain a where a: "altOrZero loc = Num a"
    using Cons.prems by (auto simp add: isFinite_iff)
  show ?case
    using Cons.IH [of "s + (E + a)" "n + 1"] Cons.prems by (simp add: a add.assoc)
qed

lemma lookAtAltitude_Num:
  assumes "locs \<noteq> []" "\<forall>loc\<in>set locs. isFinite (altOrZero loc)"
  shows "lookAtAltitude (Num E) locs =
         Num (E + (\<Sum>loc\<leftarrow>locs. val (altOrZero loc)) / real (length locs))"
proof -
  have n: "0 < length locs" using assms(1) by simp
  have "(\<Sum>loc\<leftarrow>locs. E + val (altOrZero loc)) =
        real (length locs) * E + (\<Sum>loc\<leftarrow>locs. val (altOrZero loc))"
    by (simp add: sum_list_addf sum_list_triv)
  then have "(\<Sum>loc\<leftarrow>locs. E + val (altOrZero loc)) / real (length locs) =
        E + (\<Sum>loc\<leftarrow>locs. val (altOrZero loc)) / real (length locs)"
    using n by (simp add: field_simps)
  then show ?thesis
    using n by (simp add: lookAtAltitude_def fold_altStep_Num [OF assms(2)])
qed

lemma fetchElevation_fallback:
  assumes "elevator [(a, b)] = Rejects \<or> elevator [(a, b)] = Resolves None
           \<or> elevator [(a, b)] = Resolves (Some [])"
  shows "fst (fetchElevation a b elevator) = Num 0"
  using assms by (auto simp add: fetchElevation_def)


section \<open>Monotonicity of the slant range\<close>

lemma slant_mono:
  fixes a b k :: real
  assumes "0 \<le> a" "a \<le> b"
  shows "sqrt (a\<^sup>2 + (a / k)\<^sup>2) \<le> sqrt (b\<^sup>2 + (b / k)\<^sup>2)"
proof -
  have "a\<^sup>2 \<le> b\<^sup>2"
    using assms by (simp add: power_mono)
  moreover from this have "a\<^sup>2 / k\<^sup>2 \<le> b\<^sup>2 / k\<^sup>2"
    by (simp add: divide_right_mono)
  ultimately show ?thesis
    by (simp add: power_divide add_mono)
qed

lemma slant_strict_mono:
  fixes a b k :: real
  assumes "0 \<le> a" "a < b"
  shows "sqrt (a\<^sup>2 + (a / k)\<^sup>2) < sqrt (b\<^sup>2 + (b / k)\<^sup>2)"
proof -
  have "a\<^sup>2 < b\<^sup>2"
    using assms by (simp add: power_strict_mono)
  moreover from this have "a\<^sup>2 / k\<^sup>2 \<le> b\<^sup>2 / k\<^sup>2"
    by (simp add: divide_right_mono)
  ultimately show ?thesis
    by (simp add: power_divide add_less_le_mono)
qed

lemma symmetric_scale:
  fixes t l :: real
  assumes "0 < t" "0 < l" "2 * t < 1" "2 * l < 1"
  shows "1 < max (1 / (1 - l - l)) (1 / (1 - t - t))"
proof -
  have "0 < 1 - l - l" "1 - l - l < 1" using assms by simp_all
  then have "1 < 1 / (1 - l - l)" by (simp add: field_simps)
  then show ?thesis by simp
qed


section \<open>A single location\<close>

lemma centerLat_single: "centerLat [\<lparr>lat = Num p, lng = Num q, alt = a\<rparr>] = Num p"
  by (simp add: centerLat_def boundingBox_def jgt_def)

lemma centerLng_single: "centerLng [\<lparr>lat = Num p, lng = Num q, alt = a\<rparr>] = Num q"
  by (simp add: centerLng_def boundingBox_def jgt_def)

lemma maxAngularDistance_single:
  "maxAngularDistance [\<lparr>lat = Num p, lng = Num q, alt = a\<rparr>] = Num 0"
  by (simp add: maxAngularDistance_def distStep_def centerLat_single centerLng_single
      haversine_same jgt_def)

lemma slantRange_zero: "slantRange (Num 0) = Num 0"
  by (simp add: slantRange_Num)

lemma lookAtWithPadding_single:
  assumes "1 - l - r \<noteq> 0" "1 - t - b \<noteq> 0" "cos (p * pi / 180) \<noteq> 0"
  shows "lookAtWithPadding [\<lparr>lat = Num p, lng = Num q, alt = a\<rparr>] elevator (Num h)
           (Num t, Num r, Num b, Num l) =
         (Inr \<lparr>pose_lat = Num p, pose_lng = Num q,
               pose_altitude =
                 lookAtAltitude (fst (fetchElevation (Num p) (Num q) elevator))
                   [\<lparr>lat = Num p, lng = Num q, alt = a\<rparr>],
               pose_range = Num 0, pose_tilt = Num 60, pose_heading = Num h\<rparr>,
          [GetElevationForLocations [(Num p, Num q)]])"
proof -
  let ?locs = "[\<lparr>lat = Num p, lng = Num q, alt = a\<rparr>]"
  let ?pad = "(Num t, Num r, Num b, Num l)"
  have f: "fullHorizontalDistance ?locs ?pad = Num 0"
    using fullHorizontalDistance_Num [OF maxAngularDistance_single assms(1,2)] by simp
  have "shiftLatDeg ?locs (Num h) ?pad = Num 0"
    unfolding shiftLatDeg_def shiftNorth_Num [OF f] by simp
  moreover have "shiftLngDeg ?locs (Num h) ?pad = Num 0"
    unfolding shiftLngDeg_def shiftEast_Num [OF f] using assms(3)
    by (simp add: centerLat_single degToRad_eq)
  ultimately show ?thesis
    unfolding lookAtWithPadding_Cons
    by (simp add: f slantRange_zero centerLat_single centerLng_single targetTiltDeg_def)
qed

lemma lookAtAltitude_origin: "lookAtAltitude (fst (fetchElevation x y noElevation)) [origin] = Num 0"
  by (simp add: fetchElevation_def noElevation_def lookAtAltitude_def altOrZero_def origin_def)


section \<open>Rounding in the haversine distance\<close>

text \<open>
  In exact arithmetic the argument \<open>a\<close> of the haversine function lies between 0 and 1 for
  latitudes between \<open>- 90\<close> and \<open>90\<close>, and it is exactly 1 for a location antipodal to the
  centre, as for the location \<open>(8, - 180)\<close> seen from the centre \<open>(- 8, 0)\<close> of the bounding
  box of \<open>(8, - 180)\<close> and \<open>(- 24, 180)\<close>. The code does not clamp \<open>a\<close>. In double
  arithmetic \<open>a\<close> rounds to \<^verbatim>\<open>1.0000000000000002\<close> there; then
  \<^verbatim>\<open>Math.sqrt(1 - a)\<close> is \<^verbatim>\<open>NaN\<close>, the distance is \<^verbatim>\<open>NaN\<close>, the comparison
  \<^verbatim>\<open>d > maxAngularDistance\<close> is false, and the loop passes over the farthest location.
  The model, which does not round, cannot show this at that input; the facts below are
  the steps of it that do not depend on rounding: the exact bounds of \<open>a\<close>, its value 1 at
  that input, the \<^verbatim>\<open>NaN\<close> that any value above 1 gives, and the step of the loop on a
  \<^verbatim>\<open>NaN\<close>. For this reason no theorem here states that \<open>maxAngularDistance\<close> is the
  greatest haversine distance (C6): the exact model would prove it of locations for which
  the code does not do it.
\<close>

lemma cos_prod_le:
  fixes x y :: real
  shows "cos x * cos y \<le> (cos ((y - x) / 2))\<^sup>2"
proof -
  have "cos x * cos y - sin x * sin y \<le> 1"
    using cos_le_one [of "x + y"] by (simp add: cos_add)
  moreover have "cos (y - x) = 2 * (cos ((y - x) / 2))\<^sup>2 - 1"
  proof -
    have e: "2 * ((y - x) / 2) = y - x" by simp
    have "cos (y - x) = cos (2 * ((y - x) / 2))" by (simp only: e)
    also have "\<dots> = 2 * (cos ((y - x) / 2))\<^sup>2 - 1" by (rule cos_double_cos)
    finally show ?thesis .
  qed
  moreover have "cos (y - x) = cos y * cos x + sin y * sin x"
    by (rule cos_diff)
  ultimately show ?thesis by (simp add: field_simps)
qed

lemma sin_squared_le_one': "(sin (t::real))\<^sup>2 \<le> 1"
proof -
  have "(sin t)\<^sup>2 + (cos t)\<^sup>2 = 1" by simp
  moreover have "0 \<le> (cos t)\<^sup>2" by simp
  ultimately show ?thesis by linarith
qed

lemma havA_bounds:
  assumes "0 \<le> cos (p1 * (pi / 180))" "0 \<le> cos (p2 * (pi / 180))"
  shows "0 \<le> havA p1 l1 p2 l2 \<and> havA p1 l1 p2 l2 \<le> 1"
proof -
  let ?c = "cos (p1 * (pi / 180)) * cos (p2 * (pi / 180))"
  let ?s = "(sin ((l2 - l1) * (pi / 180) / 2))\<^sup>2"
  let ?d = "(p2 - p1) * (pi / 180) / 2"
  have c0: "0 \<le> ?c" using assms by simp
  have s0: "0 \<le> ?s" by simp
  have s1: "?s \<le> 1" by (rule sin_squared_le_one')
  have "?c * ?s \<le> ?c * 1"
    using s1 c0 by (rule mult_left_mono)
  moreover have "?c \<le> (cos ?d)\<^sup>2"
  proof -
    have e: "(p2 * (pi / 180) - p1 * (pi / 180)) / 2 = ?d" by (simp add: left_diff_distrib)
    show ?thesis
      using cos_prod_le [of "p1 * (pi / 180)" "p2 * (pi / 180)"] by (simp only: e)
  qed
  moreover have "(sin ?d)\<^sup>2 + (cos ?d)\<^sup>2 = 1" by simp
  ultimately have "havA p1 l1 p2 l2 \<le> 1"
    unfolding havA_def by linarith
  moreover have "0 \<le> havA p1 l1 p2 l2"
    unfolding havA_def using c0 s0 by (simp add: mult_nonneg_nonneg)
  ultimately show ?thesis by simp
qed

lemma antipodal_argument: "havA (- 8) 0 8 (- 180) = 1"
proof -
  have "sin ((- 180 - 0) * (pi / 180) / 2) = - 1"
    by simp
  then have "havA (- 8) 0 8 (- 180) =
      (sin ((8 - - 8) * (pi / 180) / 2))\<^sup>2 + cos (- 8 * (pi / 180)) * cos (8 * (pi / 180))"
    unfolding havA_def by simp
  also have "cos (- 8 * (pi / 180)) = cos (8 * (pi / 180))"
    by simp
  also have "(8 - - 8) * (pi / 180) / 2 = 8 * (pi / 180)"
    by simp
  finally show ?thesis
    by (simp add: power2_eq_square [symmetric])
qed

lemma haversine_argument_above_one:
  assumes "1 < a"
  shows "jmul (Num 2) (jatan2 (jsqrt (Num a)) (jsqrt (jsub (Num 1) (Num a)))) = NaN"
  using assms by (simp add: jsub_def)

lemma distStep_NaN:
  assumes "haversine cLat cLng (lat loc) (lng loc) = NaN"
  shows "distStep cLat cLng loc m = m"
proof -
  have "\<not> jlt m NaN" by (cases m) simp_all
  then show ?thesis
    using assms by (simp add: distStep_def jgt_def)
qed


section \<open>The claims\<close>

text \<open>
  In the statements below a finite number is written \<open>Num x\<close> with \<open>x\<close> a real, and
  \<open>val\<close> reads the real of a finite number. A padding is the tuple
  \<open>(top, right, bottom, left)\<close>.
\<close>

text \<open>
  C1. With the padding \<open>[0, 0, 0, 0]\<close>, \<open>lookAtWithPadding\<close> returns what \<open>lookAt\<close>
  returns (the same \<open>lat\<close>, \<open>lng\<close>, \<open>altitude\<close>, \<open>range\<close>, \<open>tilt\<close> and
  \<open>heading\<close>, after the same request to the elevation service), for every non-empty list
  of locations with finite latitudes, every finite heading and every elevation service.
  The centre of the bounding box must not lie where the cosine of its latitude is exactly
  0: there the code divides the zero shift by zero.
\<close>

theorem zero_padding_agrees_with_lookAt:
  assumes "locations \<noteq> []"
    and "\<forall>l\<in>set locations. isFinite (lat l)"
    and "cos (val (centerLat locations) * pi / 180) \<noteq> 0"
    and "isFinite heading"
  shows "lookAtWithPadding locations elevator heading (Num 0, Num 0, Num 0, Num 0) =
         lookAt locations elevator heading"
proof -
  obtain h where h: "heading = Num h"
    using assms(4) by (auto simp add: isFinite_iff)
  obtain c where c: "centerLat locations = Num c"
    using centerLat_finite [OF assms(1,2)] by blast
  have cz: "cos (c * pi / 180) \<noteq> 0"
    using assms(3) c by simp
  obtain loc0 rest where l: "locations = loc0 # rest"
    using assms(1) by (cases locations) auto
  have "jadd (centerLat locations) (shiftLatDeg locations heading (Num 0, Num 0, Num 0, Num 0)) = centerLat locations"
    by (simp add: h shiftLat_zero jadd_zero_right)
  moreover have "jadd (centerLng locations) (shiftLngDeg locations heading (Num 0, Num 0, Num 0, Num 0)) = centerLng locations"
    by (simp add: h shiftLng_zero [OF c cz] jadd_zero_right)
  ultimately show ?thesis
    unfolding lookAtWithPadding_def lookAt_def l [symmetric]
    by (simp add: l full_zero split: prod.split)
qed

theorem zero_padding_agrees_with_lookAt_witness:
  "lookAtWithPadding twoPlaces noElevation (Num 30) (Num 0, Num 0, Num 0, Num 0) =
   lookAt twoPlaces noElevation (Num 30)"
  by (rule zero_padding_agrees_with_lookAt)
     (simp_all add: twoPlaces_def centerLat_def boundingBox_def jgt_def)

text \<open>
  C2, as amended. The code has no check of the padding: for every non-empty list of
  locations and every padding of finite numbers whose visible width \<open>1 - left - right\<close>
  or visible height \<open>1 - top - bottom\<close> is zero or negative, \<open>lookAtWithPadding\<close> raises
  no error and returns the camera pose that its formulas give, with tilt 60 and the heading
  unchanged. When both visible fractions are non-zero, the scale is
  \<open>max (1 / (1 - left - right)) (1 / (1 - top - bottom))\<close>, a negative reciprocal
  included; the range is \<open>sqrt (f\<^sup>2 + (f / tan 60\<degree>)\<^sup>2)\<close> with
  \<open>f = m * 6371000 * 2 * scale\<close> and \<open>m\<close> the value of \<open>maxAngularDistance\<close>; and the
  centre is the centre of the bounding box plus the shift computed from
  \<open>offsetX = (left - right) / 2\<close>, \<open>offsetY = (top - bottom) / 2\<close> and \<open>f\<close>, rotated by the
  heading. When a visible fraction is exactly 0, the scale is \<open>Infinity\<close> and the range
  is \<open>Infinity\<close>, or \<open>NaN\<close> when \<open>m\<close> is 0. (Coordinates and heading are finite, and the
  cosine of the centre latitude is not 0.)
\<close>

theorem invalid_padding_returns_pose:
  assumes "locations \<noteq> []"
    and "\<forall>loc\<in>set locations. isFinite (lat loc) \<and> isFinite (lng loc)"
    and "cos (val (centerLat locations) * pi / 180) \<noteq> 0"
    and "1 - l - r \<le> 0 \<or> 1 - t - b \<le> 0"
  shows "\<exists>pose effects m.
      lookAtWithPadding locations elevator (Num h) (Num t, Num r, Num b, Num l) = (Inr pose, effects)
    \<and> maxAngularDistance locations = Num m
    \<and> pose_tilt pose = Num 60
    \<and> pose_heading pose = Num h
    \<and> (1 - l - r \<noteq> 0 \<and> 1 - t - b \<noteq> 0 \<longrightarrow>
         scale (Num t, Num r, Num b, Num l) = Num (max (1 / (1 - l - r)) (1 / (1 - t - b)))
       \<and> (let f = m * 6371000 * 2 * max (1 / (1 - l - r)) (1 / (1 - t - b));
               cLat = (Min ((\<lambda>loc. val (lat loc)) ` set locations) + Max ((\<lambda>loc. val (lat loc)) ` set locations)) / 2;
               cLng = (Min ((\<lambda>loc. val (lng loc)) ` set locations) + Max ((\<lambda>loc. val (lng loc)) ` set locations)) / 2;
               x = - ((l - r) / 2 * f);
               y = (t - b) / 2 * f;
               shiftEast = x * cos (h * pi / 180) - y * sin (h * pi / 180);
               shiftNorth = x * sin (h * pi / 180) + y * cos (h * pi / 180)
           in pose_range pose = Num (sqrt (f\<^sup>2 + (f / tan (60 * pi / 180))\<^sup>2))
            \<and> pose_lat pose = Num (cLat + shiftNorth / 111000)
            \<and> pose_lng pose = Num (cLng + shiftEast / (111000 * cos (cLat * pi / 180)))))
    \<and> (1 - l - r = 0 \<or> 1 - t - b = 0 \<longrightarrow>
         scale (Num t, Num r, Num b, Num l) = PosInf
       \<and> pose_range pose = (if 0 < m then PosInf else NaN))"
proof -
  let ?pad = "(Num t, Num r, Num b, Num l)"
  let ?lats = "(\<lambda>loc. val (lat loc)) ` set locations"
  let ?lngs = "(\<lambda>loc. val (lng loc)) ` set locations"
  obtain loc0 rest where lc: "locations = loc0 # rest"
    using assms(1) by (cases locations) auto
  obtain m where m: "maxAngularDistance locations = Num m" "0 \<le> m"
    using maxAngularDistance_nonneg by blast
  define pose where "pose =
     \<lparr>pose_lat = jadd (centerLat locations) (shiftLatDeg locations (Num h) ?pad),
      pose_lng = jadd (centerLng locations) (shiftLngDeg locations (Num h) ?pad),
      pose_altitude = lookAtAltitude (fst (fetchElevation (lat loc0) (lng loc0) elevator)) locations,
      pose_range = slantRange (fullHorizontalDistance locations ?pad),
      pose_tilt = targetTiltDeg,
      pose_heading = Num h\<rparr>"
  have res: "lookAtWithPadding locations elevator (Num h) ?pad =
      (Inr pose, [GetElevationForLocations [(lat loc0, lng loc0)]])"
    unfolding pose_def lc by (rule lookAtWithPadding_Cons)
  have tilt: "pose_tilt pose = Num 60" "pose_heading pose = Num h"
    by (simp_all add: pose_def targetTiltDeg_def)
  have cLat: "centerLat locations = Num ((Min ?lats + Max ?lats) / 2)"
    using assms(1,2) by (intro centerLat_finite) simp_all
  have cLng: "centerLng locations = Num ((Min ?lngs + Max ?lngs) / 2)"
    using assms(1,2) by (intro centerLng_finite) simp_all
  have nz: "cos ((Min ?lats + Max ?lats) / 2 * pi / 180) \<noteq> 0"
    using assms(3) unfolding cLat by simp
  have nonzero: "scale ?pad = Num (max (1 / (1 - l - r)) (1 / (1 - t - b)))
       \<and> (let f = m * 6371000 * 2 * max (1 / (1 - l - r)) (1 / (1 - t - b));
               cLat = (Min ?lats + Max ?lats) / 2;
               cLng = (Min ?lngs + Max ?lngs) / 2;
               x = - ((l - r) / 2 * f);
               y = (t - b) / 2 * f;
               shiftEast = x * cos (h * pi / 180) - y * sin (h * pi / 180);
               shiftNorth = x * sin (h * pi / 180) + y * cos (h * pi / 180)
           in pose_range pose = Num (sqrt (f\<^sup>2 + (f / tan (60 * pi / 180))\<^sup>2))
            \<and> pose_lat pose = Num (cLat + shiftNorth / 111000)
            \<and> pose_lng pose = Num (cLng + shiftEast / (111000 * cos (cLat * pi / 180))))"
    if w: "1 - l - r \<noteq> 0" and v: "1 - t - b \<noteq> 0"
  proof -
    define f where "f = m * 6371000 * 2 * max (1 / (1 - l - r)) (1 / (1 - t - b))"
    have f: "fullHorizontalDistance locations ?pad = Num f"
      unfolding f_def by (rule fullHorizontalDistance_Num [OF m(1) w v])
    have rng: "pose_range pose = Num (sqrt (f\<^sup>2 + (f / tan (60 * pi / 180))\<^sup>2))"
      by (simp add: pose_def f slantRange_Num)
    have lat': "pose_lat pose = Num ((Min ?lats + Max ?lats) / 2
           + (- ((l - r) / 2 * f) * sin (h * pi / 180) + (t - b) / 2 * f * cos (h * pi / 180)) / 111000)"
      unfolding pose_def cLat shiftLatDeg_def shiftNorth_Num [OF f] by simp
    have lng': "pose_lng pose = Num ((Min ?lngs + Max ?lngs) / 2
           + (- ((l - r) / 2 * f) * cos (h * pi / 180) - (t - b) / 2 * f * sin (h * pi / 180))
             / (111000 * cos ((Min ?lats + Max ?lats) / 2 * pi / 180)))"
      unfolding pose_def cLng shiftLngDeg_def shiftEast_Num [OF f] cLat degToRad_eq using nz by simp
    show ?thesis
      using scale_Num [OF w v] rng lat' lng' unfolding Let_def f_def by simp
  qed
  have zero: "scale ?pad = PosInf \<and> pose_range pose = (if 0 < m then PosInf else NaN)"
    if z: "1 - l - r = 0 \<or> 1 - t - b = 0"
    using fullHorizontalDistance_PosInf [OF m z] scale_PosInf [OF z]
    by (simp add: pose_def slantRange_PosInf slantRange_NaN)
  from res m(1) tilt nonzero zero show ?thesis
    by blast
qed

theorem invalid_padding_returns_pose_witness:
  "\<exists>pose effects m.
      lookAtWithPadding twoPlaces noElevation (Num 0) (Num 0, Num (1 / 2), Num 0, Num (3 / 5)) =
        (Inr pose, effects)
    \<and> maxAngularDistance twoPlaces = Num m
    \<and> pose_tilt pose = Num 60
    \<and> pose_heading pose = Num 0
    \<and> scale (Num 0, Num (1 / 2), Num 0, Num (3 / 5)) = Num 1
    \<and> pose_range pose =
        Num (sqrt ((m * 6371000 * 2)\<^sup>2 + (m * 6371000 * 2 / tan (60 * pi / 180))\<^sup>2))
    \<and> pose_lat pose = Num 0
    \<and> pose_lng pose = Num (30 - 1 / 20 * (m * 6371000 * 2) / 111000)"
proof -
  have "twoPlaces \<noteq> []"
    and "\<forall>loc\<in>set twoPlaces. isFinite (lat loc) \<and> isFinite (lng loc)"
    and "cos (val (centerLat twoPlaces) * pi / 180) \<noteq> 0"
    and "(\<lambda>loc. val (lat loc)) ` set twoPlaces = {10, - 10}"
    and "(\<lambda>loc. val (lng loc)) ` set twoPlaces = {20, 40}"
    by (simp_all add: twoPlaces_def centerLat_def boundingBox_def jgt_def)
  moreover have "max (1 / (1 - 3 / 5 - 1 / 2)) (1 / (1 - 0 - 0)) = (1 :: real)"
    by simp
  ultimately show ?thesis
    using invalid_padding_returns_pose [of twoPlaces "3 / 5" "1 / 2" 0 0 noElevation 0]
    unfolding Let_def by fastforce
qed

text \<open>
  C2, as stated, fails: with \<open>left = 0.6\<close> and \<open>right = 0.5\<close> the visible width is
  \<open>- 0.1\<close>, and the call returns a pose.
\<close>

theorem invalid_padding_counterexample:
  "visibleWidthFraction (Num 0, Num (1 / 2), Num 0, Num (3 / 5)) = Num (- (1 / 10))
   \<and> lookAtWithPadding [origin] noElevation (Num 0) (Num 0, Num (1 / 2), Num 0, Num (3 / 5)) =
     (Inr \<lparr>pose_lat = Num 0, pose_lng = Num 0, pose_altitude = Num 0, pose_range = Num 0,
           pose_tilt = Num 60, pose_heading = Num 0\<rparr>,
      [GetElevationForLocations [(Num 0, Num 0)]])"
  using lookAtWithPadding_single [of "3 / 5" "1 / 2" 0 0 0 0 None noElevation 0]
    lookAtAltitude_origin [of "Num 0" "Num 0"]
  by (simp add: origin_def jsub_def)

text \<open>
  C3. On an empty list of locations both \<open>lookAt\<close> and \<open>lookAtWithPadding\<close> fail, for
  every elevation service, heading and padding, and before the elevation service is
  reached. The failure the specification calls the empty-input error is, in the code, the
  \<^verbatim>\<open>TypeError\<close> of reading \<^verbatim>\<open>locations[0].lat\<close>.
\<close>

theorem empty_locations_fail:
  "lookAt [] elevator heading = (Inl TypeError, [])
   \<and> lookAtWithPadding [] elevator heading padding = (Inl TypeError, [])"
  by (simp add: lookAt_def lookAtWithPadding_def)

text \<open>
  C4. For a padding \<open>(top, right, bottom, left)\<close> of finite numbers whose visible
  fractions \<open>1 - left - right\<close> and \<open>1 - top - bottom\<close> are positive, the resolver
  computes \<open>scale = max (1 / (1 - left - right)) (1 / (1 - top - bottom))\<close>,
  \<open>offsetX = (left - right) / 2\<close> and \<open>offsetY = (top - bottom) / 2\<close>.
\<close>

theorem padding_scale_and_offset:
  assumes "0 < 1 - l - r" and "0 < 1 - t - b"
  shows "visibleWidthFraction (Num t, Num r, Num b, Num l) = Num (1 - l - r)
       \<and> visibleHeightFraction (Num t, Num r, Num b, Num l) = Num (1 - t - b)
       \<and> scale (Num t, Num r, Num b, Num l) = Num (max (1 / (1 - l - r)) (1 / (1 - t - b)))
       \<and> offsetX (Num t, Num r, Num b, Num l) = Num ((l - r) / 2)
       \<and> offsetY (Num t, Num r, Num b, Num l) = Num ((t - b) / 2)"
  using assms by (simp add: scale_Num offsets_Num jsub_def)

theorem padding_scale_and_offset_witness:
  "scale (Num (1 / 20), Num (1 / 20), Num (1 / 20), Num (7 / 20)) = Num (5 / 3)
   \<and> offsetX (Num (1 / 20), Num (1 / 20), Num (1 / 20), Num (7 / 20)) = Num (3 / 20)
   \<and> offsetY (Num (1 / 20), Num (1 / 20), Num (1 / 20), Num (7 / 20)) = Num 0"
  using padding_scale_and_offset [of "7 / 20" "1 / 20" "1 / 20" "1 / 20"] by simp

text \<open>
  C5. For every non-empty list of locations with finite coordinates, every finite heading
  \<open>h\<close> and every finite padding with positive visible fractions, the returned centre is the
  centre of the bounding box (the mean of the least and the greatest latitude, and of the
  least and the greatest longitude) plus the shift: \<open>(x, y) = (- offsetX * f, offsetY * f)\<close>
  with \<open>f\<close> the full horizontal distance, rotated by the heading in radians into
  \<open>shiftEast = x * cos h - y * sin h\<close> and \<open>shiftNorth = x * sin h + y * cos h\<close>, and
  converted by \<open>shiftLat = shiftNorth / 111000\<close> and
  \<open>shiftLng = shiftEast / (111000 * cos centerLat)\<close>. The cosine of the centre latitude
  must not be 0, since the code divides by it.
\<close>

theorem padded_center:
  assumes "locations \<noteq> []"
    and "\<forall>loc\<in>set locations. isFinite (lat loc) \<and> isFinite (lng loc)"
    and "cos (val (centerLat locations) * pi / 180) \<noteq> 0"
    and "0 < 1 - l - r" and "0 < 1 - t - b"
  shows "\<exists>pose effects f.
      lookAtWithPadding locations elevator (Num h) (Num t, Num r, Num b, Num l) = (Inr pose, effects)
    \<and> fullHorizontalDistance locations (Num t, Num r, Num b, Num l) = Num f
    \<and> (let cLat = (Min ((\<lambda>loc. val (lat loc)) ` set locations) + Max ((\<lambda>loc. val (lat loc)) ` set locations)) / 2;
            cLng = (Min ((\<lambda>loc. val (lng loc)) ` set locations) + Max ((\<lambda>loc. val (lng loc)) ` set locations)) / 2;
            x = - ((l - r) / 2 * f);
            y = (t - b) / 2 * f;
            shiftEast = x * cos (h * pi / 180) - y * sin (h * pi / 180);
            shiftNorth = x * sin (h * pi / 180) + y * cos (h * pi / 180)
        in pose_lat pose = Num (cLat + shiftNorth / 111000)
         \<and> pose_lng pose = Num (cLng + shiftEast / (111000 * cos (cLat * pi / 180))))"
proof -
  let ?pad = "(Num t, Num r, Num b, Num l)"
  obtain loc0 rest where l: "locations = loc0 # rest"
    using assms(1) by (cases locations) auto
  obtain m where m: "maxAngularDistance locations = Num m"
    using maxAngularDistance_finite by blast
  define f where "f = m * 6371000 * 2 * max (1 / (1 - l - r)) (1 / (1 - t - b))"
  have f: "fullHorizontalDistance locations ?pad = Num f"
    unfolding f_def using assms(4,5) by (intro fullHorizontalDistance_Num [OF m]) simp_all
  have cLat: "centerLat locations =
      Num ((Min ((\<lambda>loc. val (lat loc)) ` set locations) + Max ((\<lambda>loc. val (lat loc)) ` set locations)) / 2)"
    using assms(1,2) by (intro centerLat_finite) simp_all
  have cLng: "centerLng locations =
      Num ((Min ((\<lambda>loc. val (lng loc)) ` set locations) + Max ((\<lambda>loc. val (lng loc)) ` set locations)) / 2)"
    using assms(1,2) by (intro centerLng_finite) simp_all
  have nz: "cos ((Min ((\<lambda>loc. val (lat loc)) ` set locations) + Max ((\<lambda>loc. val (lat loc)) ` set locations)) / 2 * pi / 180) \<noteq> 0"
    using assms(3) unfolding cLat by simp
  have lat': "jadd (centerLat locations) (shiftLatDeg locations (Num h) ?pad) =
      Num ((Min ((\<lambda>loc. val (lat loc)) ` set locations) + Max ((\<lambda>loc. val (lat loc)) ` set locations)) / 2
           + (- ((l - r) / 2 * f) * sin (h * pi / 180) + (t - b) / 2 * f * cos (h * pi / 180)) / 111000)"
    unfolding cLat shiftLatDeg_def shiftNorth_Num [OF f] by simp
  have lng': "jadd (centerLng locations) (shiftLngDeg locations (Num h) ?pad) =
      Num ((Min ((\<lambda>loc. val (lng loc)) ` set locations) + Max ((\<lambda>loc. val (lng loc)) ` set locations)) / 2
           + (- ((l - r) / 2 * f) * cos (h * pi / 180) - (t - b) / 2 * f * sin (h * pi / 180))
             / (111000 * cos ((Min ((\<lambda>loc. val (lat loc)) ` set locations) + Max ((\<lambda>loc. val (lat loc)) ` set locations)) / 2 * pi / 180)))"
    unfolding cLng shiftLngDeg_def shiftEast_Num [OF f] cLat degToRad_eq using nz by simp
  show ?thesis
    unfolding l lookAtWithPadding_Cons
    using f lat' lng' unfolding l Let_def by simp
qed

theorem padded_center_witness:
  "\<exists>pose effects f.
      lookAtWithPadding twoPlaces noElevation (Num 0)
        (Num (1 / 20), Num (1 / 20), Num (1 / 20), Num (7 / 20)) = (Inr pose, effects)
    \<and> fullHorizontalDistance twoPlaces (Num (1 / 20), Num (1 / 20), Num (1 / 20), Num (7 / 20)) = Num f
    \<and> pose_lat pose = Num 0
    \<and> pose_lng pose = Num (30 - 3 / 20 * f / 111000)"
proof -
  have "twoPlaces \<noteq> []"
    and "\<forall>loc\<in>set twoPlaces. isFinite (lat loc) \<and> isFinite (lng loc)"
    and "cos (val (centerLat twoPlaces) * pi / 180) \<noteq> 0"
    and "(\<lambda>loc. val (lat loc)) ` set twoPlaces = {10, - 10}"
    and "(\<lambda>loc. val (lng loc)) ` set twoPlaces = {20, 40}"
    by (simp_all add: twoPlaces_def centerLat_def boundingBox_def jgt_def)
  then show ?thesis
    using padded_center [of twoPlaces "7 / 20" "1 / 20" "1 / 20" "1 / 20" noElevation 0]
    by (simp add: Let_def)
qed

text \<open>
  C7. When the elevation request for the first location rejects, or resolves without
  results or with an empty result list, \<open>lookAtWithPadding\<close> still returns a pose, for
  every non-empty list of locations; the elevation counts as 0, so that for finite altitude
  offsets the returned altitude is their mean (an absent offset being 0).
\<close>

theorem elevation_failure_is_absorbed:
  assumes "elevator [(lat loc0, lng loc0)] = Rejects
         \<or> elevator [(lat loc0, lng loc0)] = Resolves None
         \<or> elevator [(lat loc0, lng loc0)] = Resolves (Some [])"
  shows "\<exists>pose effects.
      lookAtWithPadding (loc0 # rest) elevator heading padding = (Inr pose, effects)
    \<and> ((\<forall>loc\<in>set (loc0 # rest). isFinite (altOrZero loc)) \<longrightarrow>
         pose_altitude pose =
           Num ((\<Sum>loc\<leftarrow>loc0 # rest. val (altOrZero loc)) / real (length (loc0 # rest))))"
proof -
  have "lookAtAltitude (Num 0) (loc0 # rest) =
        Num ((\<Sum>loc\<leftarrow>loc0 # rest. val (altOrZero loc)) / real (length (loc0 # rest)))"
    if "\<forall>loc\<in>set (loc0 # rest). isFinite (altOrZero loc)"
    using lookAtAltitude_Num [of "loc0 # rest" 0] that by simp
  moreover have "fst (fetchElevation (lat loc0) (lng loc0) elevator) = Num 0"
    using assms by (rule fetchElevation_fallback)
  ultimately show ?thesis
    unfolding lookAtWithPadding_Cons by simp
qed

theorem elevation_failure_is_absorbed_witness:
  "\<exists>pose effects.
      lookAtWithPadding twoPlaces noElevation (Num 30)
        (Num (1 / 20), Num (1 / 20), Num (1 / 20), Num (7 / 20)) = (Inr pose, effects)
    \<and> pose_altitude pose = Num (5 / 2)"
  using elevation_failure_is_absorbed [of noElevation "\<lparr>lat = Num 10, lng = Num 20, alt = None\<rparr>"
      "[\<lparr>lat = Num (- 10), lng = Num 40, alt = Some (Num 5)\<rparr>]" "Num 30"
      "(Num (1 / 20), Num (1 / 20), Num (1 / 20), Num (7 / 20))"]
  by (simp add: twoPlaces_def noElevation_def altOrZero_def)

text \<open>
  C8, as amended. For every non-empty list of locations with finite latitudes whose centre
  is not where the cosine of the latitude is 0, every finite heading, and every padding
  with \<open>top = bottom\<close>, \<open>left = right\<close>, all four positive and both sums below 1:
  \<open>offsetX\<close> and \<open>offsetY\<close> are 0, the scale is greater than 1, the returned centre is
  the one returned with zero padding, and the range is at least the range with zero
  padding; it is strictly larger exactly when the largest angular distance is positive.
\<close>

theorem symmetric_padding_keeps_center:
  assumes "locations \<noteq> []"
    and "\<forall>loc\<in>set locations. isFinite (lat loc)"
    and "cos (val (centerLat locations) * pi / 180) \<noteq> 0"
    and "0 < t" and "0 < l" and "2 * t < 1" and "2 * l < 1"
  shows "\<exists>pose pose0 effects s m rng rng0.
      lookAtWithPadding locations elevator (Num h) (Num t, Num l, Num t, Num l) = (Inr pose, effects)
    \<and> lookAtWithPadding locations elevator (Num h) (Num 0, Num 0, Num 0, Num 0) = (Inr pose0, effects)
    \<and> offsetX (Num t, Num l, Num t, Num l) = Num 0
    \<and> offsetY (Num t, Num l, Num t, Num l) = Num 0
    \<and> scale (Num t, Num l, Num t, Num l) = Num s \<and> 1 < s
    \<and> pose_lat pose = pose_lat pose0
    \<and> pose_lng pose = pose_lng pose0
    \<and> maxAngularDistance locations = Num m
    \<and> pose_range pose = Num rng
    \<and> pose_range pose0 = Num rng0
    \<and> rng0 \<le> rng
    \<and> (rng0 < rng \<longleftrightarrow> 0 < m)"
proof -
  let ?pad = "(Num t, Num l, Num t, Num l)"
  let ?zero = "(Num 0, Num 0, Num 0, Num 0)"
  obtain loc0 rest where lc: "locations = loc0 # rest"
    using assms(1) by (cases locations) auto
  obtain m where m: "maxAngularDistance locations = Num m" "0 \<le> m"
    using maxAngularDistance_nonneg by blast
  define s where "s = max (1 / (1 - l - l)) (1 / (1 - t - t))"
  have s1: "1 < s"
    unfolding s_def using assms(4-7) by (rule symmetric_scale)
  have sc: "scale ?pad = Num s"
    unfolding s_def using assms(4-7) by (intro scale_Num) simp_all
  define f0 where "f0 = m * 6371000 * 2"
  define f where "f = m * 6371000 * 2 * s"
  have f: "fullHorizontalDistance locations ?pad = Num f"
    unfolding f_def s_def using assms(4-7) by (intro fullHorizontalDistance_Num [OF m(1)]) simp_all
  have f0: "fullHorizontalDistance locations ?zero = Num f0"
    using m(1) by (simp add: full_zero horizontalDistance_def maxDistance_def earthRadius_def f0_def)
  obtain c where c: "centerLat locations = Num c"
    using centerLat_finite [OF assms(1,2)] by blast
  have cz: "cos (c * pi / 180) \<noteq> 0"
    using assms(3) c by simp
  have lat1: "jadd (centerLat locations) (shiftLatDeg locations (Num h) ?pad) = centerLat locations"
    unfolding shiftLatDeg_def shiftNorth_Num [OF f] by (simp add: jadd_zero_right)
  have lng1: "jadd (centerLng locations) (shiftLngDeg locations (Num h) ?pad) = centerLng locations"
    unfolding shiftLngDeg_def shiftEast_Num [OF f] c degToRad_eq using cz
    by (simp add: jadd_zero_right)
  have lat0: "jadd (centerLat locations) (shiftLatDeg locations (Num h) ?zero) = centerLat locations"
    by (simp add: shiftLat_zero jadd_zero_right)
  have lng0: "jadd (centerLng locations) (shiftLngDeg locations (Num h) ?zero) = centerLng locations"
    by (simp add: shiftLng_zero [OF c cz] jadd_zero_right)
  define rng where "rng = sqrt (f\<^sup>2 + (f / tan (60 * pi / 180))\<^sup>2)"
  define rng0 where "rng0 = sqrt (f0\<^sup>2 + (f0 / tan (60 * pi / 180))\<^sup>2)"
  have r: "slantRange (fullHorizontalDistance locations ?pad) = Num rng"
    unfolding f rng_def by (rule slantRange_Num)
  have r0: "slantRange (fullHorizontalDistance locations ?zero) = Num rng0"
    unfolding f0 rng0_def by (rule slantRange_Num)
  have f0_nonneg: "0 \<le> f0"
    using m(2) by (simp add: f0_def)
  have ff: "f = f0 * s"
    by (simp add: f_def f0_def)
  have le: "f0 \<le> f"
    unfolding ff using f0_nonneg s1 by (simp add: mult_le_cancel_left1)
  have mono: "rng0 \<le> rng"
    unfolding rng_def rng0_def using f0_nonneg le by (rule slant_mono)
  have strict: "rng0 < rng \<longleftrightarrow> 0 < m"
  proof (cases "m = 0")
    case True
    then show ?thesis by (simp add: rng_def rng0_def f_def f0_def)
  next
    case False
    then have pos: "0 < f0" using m(2) by (simp add: f0_def)
    then have "f0 < f" unfolding ff using s1 by simp
    then have "rng0 < rng"
      unfolding rng_def rng0_def using f0_nonneg by (intro slant_strict_mono)
    then show ?thesis using False m(2) by simp
  qed
  define pose where "pose =
     \<lparr>pose_lat = centerLat locations, pose_lng = centerLng locations,
      pose_altitude = lookAtAltitude (fst (fetchElevation (lat loc0) (lng loc0) elevator)) locations,
      pose_range = Num rng, pose_tilt = targetTiltDeg, pose_heading = Num h\<rparr>"
  define pose0 where "pose0 =
     \<lparr>pose_lat = centerLat locations, pose_lng = centerLng locations,
      pose_altitude = lookAtAltitude (fst (fetchElevation (lat loc0) (lng loc0) elevator)) locations,
      pose_range = Num rng0, pose_tilt = targetTiltDeg, pose_heading = Num h\<rparr>"
  have res: "lookAtWithPadding locations elevator (Num h) ?pad =
      (Inr pose, [GetElevationForLocations [(lat loc0, lng loc0)]])"
    using lat1 lng1 r unfolding pose_def lc lookAtWithPadding_Cons by simp
  have res0: "lookAtWithPadding locations elevator (Num h) ?zero =
      (Inr pose0, [GetElevationForLocations [(lat loc0, lng loc0)]])"
    using lat0 lng0 r0 unfolding pose0_def lc lookAtWithPadding_Cons by simp
  have ox: "offsetX ?pad = Num 0" "offsetY ?pad = Num 0"
    by (simp_all add: jsub_def)
  have p: "pose_lat pose = pose_lat pose0" "pose_lng pose = pose_lng pose0"
    "pose_range pose = Num rng" "pose_range pose0 = Num rng0"
    by (simp_all add: pose_def pose0_def)
  from res res0 ox sc s1 p m(1) mono strict show ?thesis
    by blast
qed

theorem symmetric_padding_keeps_center_witness:
  "\<exists>pose pose0 effects s m rng rng0.
      lookAtWithPadding twoPlaces noElevation (Num 30)
        (Num (1 / 10), Num (1 / 5), Num (1 / 10), Num (1 / 5)) = (Inr pose, effects)
    \<and> lookAtWithPadding twoPlaces noElevation (Num 30) (Num 0, Num 0, Num 0, Num 0) =
        (Inr pose0, effects)
    \<and> offsetX (Num (1 / 10), Num (1 / 5), Num (1 / 10), Num (1 / 5)) = Num 0
    \<and> offsetY (Num (1 / 10), Num (1 / 5), Num (1 / 10), Num (1 / 5)) = Num 0
    \<and> scale (Num (1 / 10), Num (1 / 5), Num (1 / 10), Num (1 / 5)) = Num s \<and> 1 < s
    \<and> pose_lat pose = pose_lat pose0
    \<and> pose_lng pose = pose_lng pose0
    \<and> maxAngularDistance twoPlaces = Num m
    \<and> pose_range pose = Num rng
    \<and> pose_range pose0 = Num rng0
    \<and> rng0 \<le> rng
    \<and> (rng0 < rng \<longleftrightarrow> 0 < m)"
  by (rule symmetric_padding_keeps_center)
     (simp_all add: twoPlaces_def centerLat_def boundingBox_def jgt_def)

text \<open>
  C8, as stated, fails: for a single location the range is 0 with the symmetric padding
  \<open>0.1\<close> on every side and 0 with zero padding, so it is not strictly larger.
\<close>

theorem symmetric_padding_range_counterexample:
  "lookAtWithPadding [origin] noElevation (Num 0)
       (Num (1 / 10), Num (1 / 10), Num (1 / 10), Num (1 / 10)) =
     (Inr \<lparr>pose_lat = Num 0, pose_lng = Num 0, pose_altitude = Num 0, pose_range = Num 0,
           pose_tilt = Num 60, pose_heading = Num 0\<rparr>,
      [GetElevationForLocations [(Num 0, Num 0)]])
   \<and> lookAtWithPadding [origin] noElevation (Num 0) (Num 0, Num 0, Num 0, Num 0) =
     (Inr \<lparr>pose_lat = Num 0, pose_lng = Num 0, pose_altitude = Num 0, pose_range = Num 0,
           pose_tilt = Num 60, pose_heading = Num 0\<rparr>,
      [GetElevationForLocations [(Num 0, Num 0)]])
   \<and> \<not> jgt (Num 0) (Num 0)"
  using lookAtWithPadding_single [of "1 / 10" "1 / 10" "1 / 10" "1 / 10" 0 0 None noElevation 0]
    lookAtWithPadding_single [of 0 0 0 0 0 0 None noElevation 0]
    lookAtAltitude_origin [of "Num 0" "Num 0"]
  by (simp add: origin_def jgt_def)

text \<open>
  C9. For every non-empty list of locations, \<open>lookAtWithPadding\<close> sends exactly one
  request to the elevation service, for the first location alone. When that request
  resolves with a first result of finite elevation and the altitude offsets are finite, the
  returned altitude is that elevation plus the mean of the offsets (an absent offset
  being 0).
\<close>

theorem elevation_sampled_once:
  "\<exists>pose.
      lookAtWithPadding (loc0 # rest) elevator heading padding =
        (Inr pose, [GetElevationForLocations [(lat loc0, lng loc0)]])
    \<and> (\<forall>res more. elevator [(lat loc0, lng loc0)] = Resolves (Some (res # more))
          \<and> isFinite (elevation res) \<and> (\<forall>loc\<in>set (loc0 # rest). isFinite (altOrZero loc)) \<longrightarrow>
          pose_altitude pose =
            Num (val (elevation res)
                 + (\<Sum>loc\<leftarrow>loc0 # rest. val (altOrZero loc)) / real (length (loc0 # rest))))"
proof -
  have "\<forall>res more. elevator [(lat loc0, lng loc0)] = Resolves (Some (res # more))
          \<and> isFinite (elevation res) \<and> (\<forall>loc\<in>set (loc0 # rest). isFinite (altOrZero loc)) \<longrightarrow>
        lookAtAltitude (fst (fetchElevation (lat loc0) (lng loc0) elevator)) (loc0 # rest) =
        Num (val (elevation res)
             + (\<Sum>loc\<leftarrow>loc0 # rest. val (altOrZero loc)) / real (length (loc0 # rest)))"
  proof (intro allI impI, elim conjE)
    fix res more
    assume r: "elevator [(lat loc0, lng loc0)] = Resolves (Some (res # more))"
      and e: "isFinite (elevation res)"
      and a: "\<forall>loc\<in>set (loc0 # rest). isFinite (altOrZero loc)"
    obtain E where E: "elevation res = Num E"
      using e by (auto simp add: isFinite_iff)
    have "fst (fetchElevation (lat loc0) (lng loc0) elevator) = Num E"
      by (simp add: fetchElevation_def r E)
    then show "lookAtAltitude (fst (fetchElevation (lat loc0) (lng loc0) elevator)) (loc0 # rest) =
        Num (val (elevation res)
             + (\<Sum>loc\<leftarrow>loc0 # rest. val (altOrZero loc)) / real (length (loc0 # rest)))"
      using lookAtAltitude_Num [of "loc0 # rest" E] a by (simp add: E)
  qed
  then show ?thesis
    unfolding lookAtWithPadding_Cons by simp
qed

theorem elevation_sampled_once_witness:
  "\<exists>pose.
      lookAtWithPadding twoPlaces flatElevation (Num 30)
        (Num (1 / 20), Num (1 / 20), Num (1 / 20), Num (7 / 20)) =
        (Inr pose, [GetElevationForLocations [(Num 10, Num 20)]])
    \<and> pose_altitude pose = Num (205 / 2)"
  using elevation_sampled_once [of "\<lparr>lat = Num 10, lng = Num 20, alt = None\<rparr>"
      "[\<lparr>lat = Num (- 10), lng = Num 40, alt = Some (Num 5)\<rparr>]"
      flatElevation "Num 30" "(Num (1 / 20), Num (1 / 20), Num (1 / 20), Num (7 / 20))"]
  by (simp add: twoPlaces_def flatElevation_def altOrZero_def)

text \<open>
  C10. For every padding, \<open>frameEntities\<close> on an empty list of entities returns without an
  error and with no effect at all: no elevation request and no camera animation. On a
  non-empty list it sends the one elevation request of \<open>lookAtWithPadding\<close> (called with
  heading 0) and then flies the camera once, with the range that \<open>lookAtWithPadding\<close>
  returned plus 1000, heading 0 and roll 0.
\<close>

theorem frameEntities_effects:
  "frameEntities elevator [] padding = (Inr (), [])
   \<and> (\<exists>pose effects.
        lookAtWithPadding (map position (entity # others)) elevator (Num 0) padding = (Inr pose, effects)
      \<and> effects = [GetElevationForLocations [(lat (position entity), lng (position entity))]]
      \<and> frameEntities elevator (entity # others) padding =
          (Inr (),
           effects @
           [FlyCameraTo \<lparr>durationMillis = Num 5000,
              endCamera = \<lparr>center = \<lparr>center_lat = pose_lat pose,
                                      center_lng = pose_lng pose,
                                      center_altitude = pose_altitude pose\<rparr>,
                           cam_range = jadd (pose_range pose) (Num 1000),
                           cam_heading = Num 0,
                           cam_tilt = pose_tilt pose,
                           cam_roll = Num 0\<rparr>\<rparr>]))"
  by (simp add: frameEntities_def flyTo_def lookAtWithPadding_Cons)

end
